theory Spec2Isabelle
  imports Complex_Main
begin

section \<open>JavaScript values\<close>

text \<open>
  The review scheduler and the priority ranker compute with the JavaScript type
  \<open>number\<close>. In this first model a number is either \<open>NaN\<close> or a finite value
  \<open>Num x\<close>, and arithmetic on finite values is exact: the rounding of binary64, the two
  infinities and the sign of zero are left out. It serves the priority, whose day and
  point arithmetic is on integers that binary64 represents exactly, and the properties
  of the scheduler that rounding does not touch: which branch runs, that no input is
  refused, the floor of the ease factor and the cap of the interval. The values that
  the scheduler returns are computed in the binary64 model further down.
  \<open>NaN\<close> behaves as in ECMAScript: it propagates through arithmetic, \<open>Math.min\<close>,
  \<open>Math.max\<close>, \<open>Math.round\<close> and \<open>Math.floor\<close>, and every comparison with it is false.
\<close>

datatype jsnum = NaN | Num real

fun js_add :: "jsnum \<Rightarrow> jsnum \<Rightarrow> jsnum" where
  "js_add (Num a) (Num b) = Num (a + b)"
| "js_add _ _ = NaN"

fun js_sub :: "jsnum \<Rightarrow> jsnum \<Rightarrow> jsnum" where
  "js_sub (Num a) (Num b) = Num (a - b)"
| "js_sub _ _ = NaN"

fun js_mul :: "jsnum \<Rightarrow> jsnum \<Rightarrow> jsnum" where
  "js_mul (Num a) (Num b) = Num (a * b)"
| "js_mul _ _ = NaN"

text \<open>
  Division by a literal: the only division of the modelled code has the non-zero
  divisor \<open>1000 * 60 * 60 * 24\<close>, so the divisor is a plain real here.
\<close>

fun js_div :: "jsnum \<Rightarrow> real \<Rightarrow> jsnum" where
  "js_div (Num a) d = Num (a / d)"
| "js_div NaN d = NaN"

fun js_lt :: "jsnum \<Rightarrow> jsnum \<Rightarrow> bool" where
  "js_lt (Num a) (Num b) = (a < b)"
| "js_lt _ _ = False"

fun js_le :: "jsnum \<Rightarrow> jsnum \<Rightarrow> bool" where
  "js_le (Num a) (Num b) = (a \<le> b)"
| "js_le _ _ = False"

text \<open>Strict equality \<open>===\<close> on numbers: \<open>NaN\<close> equals nothing, itself included.\<close>

fun js_seq :: "jsnum \<Rightarrow> jsnum \<Rightarrow> bool" where
  "js_seq (Num a) (Num b) = (a = b)"
| "js_seq _ _ = False"

fun Math_max :: "jsnum \<Rightarrow> jsnum \<Rightarrow> jsnum" where
  "Math_max (Num a) (Num b) = Num (max a b)"
| "Math_max _ _ = NaN"

fun Math_min :: "jsnum \<Rightarrow> jsnum \<Rightarrow> jsnum" where
  "Math_min (Num a) (Num b) = Num (min a b)"
| "Math_min _ _ = NaN"

text \<open>
  \<open>Math.round\<close> rounds to the nearest integer, a tie going up: it is
  \<open>\<lfloor>x + 1/2\<rfloor>\<close>, which is what \<^const>\<open>round\<close> computes.
\<close>

fun Math_round :: "jsnum \<Rightarrow> jsnum" where
  "Math_round (Num a) = Num (of_int (round a))"
| "Math_round NaN = NaN"

fun Math_floor :: "jsnum \<Rightarrow> jsnum" where
  "Math_floor (Num a) = Num (of_int \<lfloor>a\<rfloor>)"
| "Math_floor NaN = NaN"

text \<open>
  The value a property access can yield: \<open>undefined\<close>, \<open>null\<close>, a number, or one of the
  built-in functions and objects reachable through \<open>Object.prototype\<close>, named by its
  property.
\<close>

datatype jsval = Undefined | Null | Number jsnum | Builtin string

section \<open>Data model (shared/types)\<close>

text \<open>
  An ISO date string is represented by the time value that \<open>new Date(s).getTime()\<close>
  gives for it: \<open>Num t\<close>, milliseconds since the epoch, or \<open>NaN\<close> for a string that
  is no date. An optional property is an \<open>option\<close>; for a date string \<open>None\<close> stands for
  the falsy values (\<open>undefined\<close> and the empty string), which the code does not
  tell apart.
\<close>

type_synonym isodate = jsnum

record Paper =
  id :: string
  title :: string
  tags :: "string list option"
  authors :: "string option"
  url :: "string option"
  notionUrl :: "string option"
  content :: "string option"
  lastEdited :: "string option"
  createdAt :: "string option"

text \<open>
  \<open>PaperStats\<close>. \<open>masteryScore\<close> is optional because \<open>calculatePriority\<close> tests it
  against \<open>undefined\<close>.
\<close>

record PaperStats =
  lastReviewed :: "isodate option"
  masteryScore :: "jsnum option"
  reviewCount :: jsnum
  easeFactor :: jsnum
  interval :: jsnum
  dueDate :: "isodate option"

text \<open>
  \<open>SpacedRepetitionResult\<close>. Its fields have the names of two fields of \<open>PaperStats\<close>;
  from here on \<open>interval\<close> and \<open>easeFactor\<close> are the fields of the result, and those
  of the statistics are written \<open>PaperStats.interval\<close> and \<open>PaperStats.easeFactor\<close>.
\<close>

record SpacedRepetitionResult =
  interval :: jsnum
  easeFactor :: jsnum

section \<open>Priority calculation (utils/priority)\<close>

text \<open>
  \<open>stats?.masteryScore !== undefined && stats.masteryScore < 50\<close>
\<close>

definition lowMastery :: "PaperStats option \<Rightarrow> bool" where
  "lowMastery stats =
     (case Option.bind stats masteryScore of
        None \<Rightarrow> False
      | Some m \<Rightarrow> js_lt m (Num 50))"

text \<open>
  \<open>stats?.dueDate && new Date(stats.dueDate) <= new Date()\<close>
\<close>

definition isDue :: "real \<Rightarrow> PaperStats option \<Rightarrow> bool" where
  "isDue now stats =
     (case Option.bind stats dueDate of
        None \<Rightarrow> False
      | Some d \<Rightarrow> js_le d (Num now))"

text \<open>
  \<open>Math.floor((Date.now() - new Date(stats.lastReviewed).getTime()) / (1000 * 60 * 60 * 24))\<close>
\<close>

definition daysSince :: "real \<Rightarrow> isodate \<Rightarrow> jsnum" where
  "daysSince now lr = Math_floor (js_div (js_sub (Num now) lr) (1000 * 60 * 60 * 24))"

text \<open>
  \<open>calculatePriority(paper, stats?)\<close>, which does not use its first argument. The
  clock is the parameter \<open>now\<close> (milliseconds since the epoch): \<open>Date.now()\<close> and
  \<open>new Date()\<close> of one call read the same instant.
  The variable \<open>priority\<close> is threaded through the three statements that add to it.
\<close>

definition calculatePriority :: "real \<Rightarrow> Paper \<Rightarrow> PaperStats option \<Rightarrow> jsnum" where
  "calculatePriority now paper stats =
     (let priority = Num 0;
          priority =
            (case Option.bind stats lastReviewed of
               None \<Rightarrow> js_add priority (Num 50)
             | Some lr \<Rightarrow> js_add priority (Math_min (js_mul (daysSince now lr) (Num 2)) (Num 30)));
          priority = (if lowMastery stats then js_add priority (Num 20) else priority);
          priority = (if isDue now stats then js_add priority (Num 25) else priority)
      in priority)"

section \<open>Spaced repetition (utils/spacedRepetition)\<close>

text \<open>
  \<open>calculateNextReview(quality, previousInterval = 0, easeFactor = 2.5)\<close>, with the
  arguments as they are after the defaults have replaced omitted ones. The function has
  no \<open>throw\<close>: each path ends in a \<open>return\<close>. The parameter \<open>easeFactor\<close> is written
  \<open>easeFactor'\<close>, apart from the field of the result.
\<close>

definition calculateNextReview :: "jsnum \<Rightarrow> jsnum \<Rightarrow> jsnum \<Rightarrow> SpacedRepetitionResult" where
  "calculateNextReview quality previousInterval easeFactor' =
     (if js_lt quality (Num 3) then
        \<lparr> interval = Num 1,
          easeFactor = Math_max (Num 1.3) (js_sub easeFactor' (Num 0.2)) \<rparr>
      else
        let newInterval =
              (if js_seq previousInterval (Num 0) then Num 1
               else if js_seq previousInterval (Num 1) then Num 3
               else Math_round (js_mul previousInterval easeFactor'));
            newEaseFactor =
              js_add easeFactor'
                (js_sub (Num 0.1)
                   (js_mul (js_sub (Num 5) quality)
                      (js_add (Num 0.08) (js_mul (js_sub (Num 5) quality) (Num 0.02)))))
        in \<lparr> interval = Math_min newInterval (Num 60),
             easeFactor = Math_max (Num 1.3) newEaseFactor \<rparr>)"

text \<open>
  Property lookup \<open>obj[key]\<close> on an object literal: the object's own properties first,
  then those it inherits from \<open>Object.prototype\<close> (ECMAScript, properties of the Object
  prototype object and its additional legacy properties); \<open>undefined\<close> when neither
  has the key.
\<close>

definition objectPrototype :: "string list" where
  "objectPrototype =
     [''constructor'', ''hasOwnProperty'', ''isPrototypeOf'', ''propertyIsEnumerable'',
      ''toLocaleString'', ''toString'', ''valueOf'', ''__proto__'',
      ''__defineGetter__'', ''__defineSetter__'', ''__lookupGetter__'', ''__lookupSetter__'']"

definition js_get :: "(string \<times> jsval) list \<Rightarrow> string \<Rightarrow> jsval" where
  "js_get own key =
     (case map_of own key of
        Some v \<Rightarrow> v
      | None \<Rightarrow> if key \<in> set objectPrototype then Builtin key else Undefined)"

text \<open>Nullish coalescing \<open>a ?? b\<close>.\<close>

definition nullish :: "jsval \<Rightarrow> jsval \<Rightarrow> jsval" where
  "nullish a b = (if a = Undefined \<or> a = Null then b else a)"

definition qualityMap :: "(string \<times> jsval) list" where
  "qualityMap =
     [(''forgot'', Number (Num 0)),
      (''struggled'', Number (Num 2)),
      (''good'', Number (Num 4)),
      (''perfect'', Number (Num 5))]"

definition getRatingQuality :: "string \<Rightarrow> jsval" where
  "getRatingQuality ratingKey = nullish (js_get qualityMap ratingKey) (Number (Num 2))"

section \<open>Binary64 arithmetic\<close>

text \<open>
  The type \<open>number\<close> is IEEE 754 binary64, and the ease factor and the interval that
  \<open>calculateNextReview\<close> returns are results of its rounded operations. A value is
  \<open>NaN\<close>, one of the two infinities or a finite real; the two zeros are one value, as
  they are for \<open>===\<close>.
\<close>

datatype binary64 = NaN64 | NegInf | Fin real | PosInf

text \<open>
  \<open>round64\<close> takes a real to the nearest binary64 value, a tie going to the even
  significand. The unit in the last place is \<open>2\<close> to the power \<open>e - 52\<close>, where the
  exponent \<open>e\<close> is the largest one from 1023 down to -1022 with \<open>2\<close> to the power \<open>e\<close>
  at most the magnitude of the argument, and -1022 (that of the smallest normal number)
  when there is none. A rounded magnitude of \<open>2\<close> to the power \<open>1024\<close> or more is an
  infinity. A decimal literal of the source denotes \<open>round64\<close> of its value.
\<close>

definition pow2 :: "int \<Rightarrow> real" where
  "pow2 k = (if 0 \<le> k then 2 ^ nat k else 1 / 2 ^ nat (- k))"

definition round_half_even :: "real \<Rightarrow> int" where
  "round_half_even r =
     (let n = \<lfloor>r\<rfloor>; f = r - of_int n
      in if f < 1 / 2 then n
         else if 1 / 2 < f then n + 1
         else if even n then n else n + 1)"

fun exponent_search :: "nat \<Rightarrow> int \<Rightarrow> real \<Rightarrow> int" where
  "exponent_search 0 k x = k"
| "exponent_search (Suc n) k x = (if pow2 k \<le> \<bar>x\<bar> then k else exponent_search n (k - 1) x)"

definition exponent64 :: "real \<Rightarrow> int" where
  "exponent64 x = exponent_search 2045 1023 x"

definition round64 :: "real \<Rightarrow> binary64" where
  "round64 x =
     (if x = 0 then Fin 0
      else
        let ulp = pow2 (exponent64 x - 52);
            y = of_int (round_half_even (x / ulp)) * ulp
        in if pow2 1024 \<le> \<bar>y\<bar> then (if 0 < x then PosInf else NegInf) else Fin y)"

text \<open>
  Addition, subtraction and multiplication: on finite operands the exact result,
  rounded; with an infinity or \<open>NaN\<close> as IEEE 754 has it.
\<close>

fun add64 :: "binary64 \<Rightarrow> binary64 \<Rightarrow> binary64" where
  "add64 (Fin a) (Fin b) = round64 (a + b)"
| "add64 NaN64 _ = NaN64"
| "add64 _ NaN64 = NaN64"
| "add64 PosInf NegInf = NaN64"
| "add64 NegInf PosInf = NaN64"
| "add64 PosInf _ = PosInf"
| "add64 _ PosInf = PosInf"
| "add64 NegInf _ = NegInf"
| "add64 _ NegInf = NegInf"

fun sub64 :: "binary64 \<Rightarrow> binary64 \<Rightarrow> binary64" where
  "sub64 (Fin a) (Fin b) = round64 (a - b)"
| "sub64 NaN64 _ = NaN64"
| "sub64 _ NaN64 = NaN64"
| "sub64 PosInf PosInf = NaN64"
| "sub64 NegInf NegInf = NaN64"
| "sub64 PosInf _ = PosInf"
| "sub64 NegInf _ = NegInf"
| "sub64 _ NegInf = PosInf"
| "sub64 _ PosInf = NegInf"

fun mul64 :: "binary64 \<Rightarrow> binary64 \<Rightarrow> binary64" where
  "mul64 (Fin a) (Fin b) = round64 (a * b)"
| "mul64 NaN64 _ = NaN64"
| "mul64 _ NaN64 = NaN64"
| "mul64 (Fin a) PosInf = (if a = 0 then NaN64 else if 0 < a then PosInf else NegInf)"
| "mul64 (Fin a) NegInf = (if a = 0 then NaN64 else if 0 < a then NegInf else PosInf)"
| "mul64 PosInf (Fin b) = (if b = 0 then NaN64 else if 0 < b then PosInf else NegInf)"
| "mul64 NegInf (Fin b) = (if b = 0 then NaN64 else if 0 < b then NegInf else PosInf)"
| "mul64 PosInf PosInf = PosInf"
| "mul64 NegInf NegInf = PosInf"
| "mul64 PosInf NegInf = NegInf"
| "mul64 NegInf PosInf = NegInf"

text \<open>The comparisons \<open><\<close>, \<open><=\<close> and \<open>===\<close>.\<close>

fun lt64 :: "binary64 \<Rightarrow> binary64 \<Rightarrow> bool" where
  "lt64 (Fin a) (Fin b) = (a < b)"
| "lt64 NaN64 _ = False"
| "lt64 _ NaN64 = False"
| "lt64 NegInf NegInf = False"
| "lt64 NegInf _ = True"
| "lt64 _ NegInf = False"
| "lt64 PosInf _ = False"
| "lt64 _ PosInf = True"

fun le64 :: "binary64 \<Rightarrow> binary64 \<Rightarrow> bool" where
  "le64 (Fin a) (Fin b) = (a \<le> b)"
| "le64 NaN64 _ = False"
| "le64 _ NaN64 = False"
| "le64 NegInf _ = True"
| "le64 _ PosInf = True"
| "le64 _ _ = False"

fun seq64 :: "binary64 \<Rightarrow> binary64 \<Rightarrow> bool" where
  "seq64 (Fin a) (Fin b) = (a = b)"
| "seq64 PosInf PosInf = True"
| "seq64 NegInf NegInf = True"
| "seq64 _ _ = False"

fun Math_max64 :: "binary64 \<Rightarrow> binary64 \<Rightarrow> binary64" where
  "Math_max64 (Fin a) (Fin b) = Fin (max a b)"
| "Math_max64 NaN64 _ = NaN64"
| "Math_max64 _ NaN64 = NaN64"
| "Math_max64 PosInf _ = PosInf"
| "Math_max64 _ PosInf = PosInf"
| "Math_max64 NegInf b = b"
| "Math_max64 a NegInf = a"

fun Math_min64 :: "binary64 \<Rightarrow> binary64 \<Rightarrow> binary64" where
  "Math_min64 (Fin a) (Fin b) = Fin (min a b)"
| "Math_min64 NaN64 _ = NaN64"
| "Math_min64 _ NaN64 = NaN64"
| "Math_min64 NegInf _ = NegInf"
| "Math_min64 _ NegInf = NegInf"
| "Math_min64 PosInf b = b"
| "Math_min64 a PosInf = a"

text \<open>
  \<open>Math.round\<close> is exact: the integer \<open>\<lfloor>x + 1/2\<rfloor>\<close>, whatever the rounding of
  \<open>x + 0.5\<close> in binary64 would be.
\<close>

fun Math_round64 :: "binary64 \<Rightarrow> binary64" where
  "Math_round64 (Fin a) = Fin (of_int (round a))"
| "Math_round64 x = x"

record SpacedRepetitionResult64 =
  interval64 :: binary64
  easeFactor64 :: binary64

text \<open>
  \<open>calculateNextReview\<close> over binary64, statement by statement as above. The integer
  literals \<open>0\<close>, \<open>1\<close>, \<open>3\<close>, \<open>5\<close> and \<open>60\<close> are binary64 values; the decimal literals
  are rounded.
\<close>

definition calculateNextReview_binary64 ::
    "binary64 \<Rightarrow> binary64 \<Rightarrow> binary64 \<Rightarrow> SpacedRepetitionResult64" where
  "calculateNextReview_binary64 quality previousInterval easeFactor' =
     (if lt64 quality (Fin 3) then
        \<lparr> interval64 = Fin 1,
          easeFactor64 = Math_max64 (round64 1.3) (sub64 easeFactor' (round64 0.2)) \<rparr>
      else
        let newInterval =
              (if seq64 previousInterval (Fin 0) then Fin 1
               else if seq64 previousInterval (Fin 1) then Fin 3
               else Math_round64 (mul64 previousInterval easeFactor'));
            newEaseFactor =
              add64 easeFactor'
                (sub64 (round64 0.1)
                   (mul64 (sub64 (Fin 5) quality)
                      (add64 (round64 0.08) (mul64 (sub64 (Fin 5) quality) (round64 0.02)))))
        in \<lparr> interval64 = Math_min64 newInterval (Fin 60),
             easeFactor64 = Math_max64 (round64 1.3) newEaseFactor \<rparr>)"

section \<open>Example data\<close>

definition examplePaper :: Paper where
  "examplePaper =
     \<lparr> id = ''paper-1'', title = ''Attention Is All You Need'', tags = None, authors = None,
       url = None, notionUrl = None, content = None, lastEdited = None, createdAt = None \<rparr>"

text \<open>
  Statistics of a paper reviewed once, with the given review date, mastery score and
  due date.
\<close>

definition exampleStats :: "isodate option \<Rightarrow> real \<Rightarrow> isodate option \<Rightarrow> PaperStats" where
  "exampleStats lr m due =
     \<lparr> lastReviewed = lr, masteryScore = Some (Num m), reviewCount = Num 1,
       PaperStats.easeFactor = Num 2.5, PaperStats.interval = Num 1, dueDate = due \<rparr>"

section \<open>Auxiliary facts\<close>

lemma js_add_zero: "js_add (Num 0) x = x"
  by (cases x) simp_all

lemma js_le_not_lt: "js_le a b \<Longrightarrow> \<not> js_lt b a"
  by (cases a; cases b) simp_all

lemma daysSince_Num: "daysSince now (Num t) = Num (of_int \<lfloor>(now - t) / 86400000\<rfloor>)"
  by (simp add: daysSince_def)

text \<open>
  The three additions of \<open>calculatePriority\<close> in one expression: the time term, or 50,
  then the two bonuses; a \<open>NaN\<close> time term makes the score \<open>NaN\<close>.
\<close>

lemma priority_steps:
  "calculatePriority now paper stats =
     (case (case Option.bind stats lastReviewed of
              None \<Rightarrow> Num 50
            | Some lr \<Rightarrow> Math_min (js_mul (daysSince now lr) (Num 2)) (Num 30)) of
        NaN \<Rightarrow> NaN
      | Num r \<Rightarrow>
          Num (r + (if lowMastery stats then 20 else 0) + (if isDue now stats then 25 else 0)))"
  by (auto simp: calculatePriority_def js_add_zero Let_def split: option.splits jsnum.splits)

lemma time_term_nonneg:
  assumes "t \<le> now"
  shows "\<exists>r. Math_min (js_mul (daysSince now (Num t)) (Num 2)) (Num 30) = Num r \<and> 0 \<le> r"
proof -
  have "0 \<le> (now - t) / 86400000" using assms by simp
  then have "0 \<le> \<lfloor>(now - t) / 86400000\<rfloor>" by simp
  then have "(0::real) \<le> of_int \<lfloor>(now - t) / 86400000\<rfloor> * 2" by simp
  then show ?thesis by (simp add: daysSince_Num)
qed

lemma time_term_future:
  assumes "now < t"
  shows "Math_min (js_mul (daysSince now (Num t)) (Num 2)) (Num 30) =
           Num (2 * of_int \<lfloor>(now - t) / 86400000\<rfloor>)
         \<and> \<lfloor>(now - t) / 86400000\<rfloor> \<le> - 1"
proof -
  have "(now - t) / 86400000 < 0" using assms by simp
  then have neg: "\<lfloor>(now - t) / 86400000\<rfloor> \<le> - 1" by linarith
  then have "real_of_int \<lfloor>(now - t) / 86400000\<rfloor> \<le> - 1" by linarith
  then have "real_of_int \<lfloor>(now - t) / 86400000\<rfloor> * 2 \<le> 30" by linarith
  then have "min (real_of_int \<lfloor>(now - t) / 86400000\<rfloor> * 2) 30 =
             2 * of_int \<lfloor>(now - t) / 86400000\<rfloor>"
    by (simp only: min_absorb1 mult.commute)
  then have "Math_min (js_mul (daysSince now (Num t)) (Num 2)) (Num 30) =
             Num (2 * of_int \<lfloor>(now - t) / 86400000\<rfloor>)"
    by (simp only: daysSince_Num js_mul.simps Math_min.simps)
  with neg show ?thesis by blast
qed

lemma failure_branch:
  "js_lt q (Num 3) \<Longrightarrow>
   calculateNextReview q p e =
     \<lparr> interval = Num 1, easeFactor = Math_max (Num 1.3) (js_sub e (Num 0.2)) \<rparr>"
  by (simp add: calculateNextReview_def)

lemma success_branch:
  "\<not> js_lt q (Num 3) \<Longrightarrow>
   calculateNextReview q p e =
     \<lparr> interval =
         Math_min (if js_seq p (Num 0) then Num 1
                   else if js_seq p (Num 1) then Num 3
                   else Math_round (js_mul p e)) (Num 60),
       easeFactor =
         Math_max (Num 1.3)
           (js_add e (js_sub (Num 0.1)
              (js_mul (js_sub (Num 5) q)
                 (js_add (Num 0.08) (js_mul (js_sub (Num 5) q) (Num 0.02)))))) \<rparr>"
  by (simp add: calculateNextReview_def Let_def)

text \<open>
  Evaluating \<open>round64\<close>: once the exponent of the argument is known, the search is
  gone and the rest is arithmetic on rationals.
\<close>

lemma pow2_powr: "pow2 k = 2 powr (of_int k)"
  by (simp only: pow2_def powr_real_of_int [of 2 k, simplified] inverse_eq_divide)

lemma pow2_pos: "0 < pow2 k"
  by (simp add: pow2_powr)

lemma pow2_less_iff: "pow2 a < pow2 b \<longleftrightarrow> a < b"
  by (simp add: pow2_powr)

lemma exponent_search_eval:
  assumes "pow2 e \<le> \<bar>x\<bar>" and "\<bar>x\<bar> < pow2 (e + 1)" and "e \<le> k" and "k - int n \<le> e"
  shows "exponent_search n k x = e"
  using assms(3,4)
proof (induction n arbitrary: k)
  case 0
  then show ?case by simp
next
  case (Suc n)
  show ?case
  proof (cases "pow2 k \<le> \<bar>x\<bar>")
    case True
    with assms(2) have "pow2 k < pow2 (e + 1)" by linarith
    then have "k < e + 1" by (simp only: pow2_less_iff)
    with Suc.prems(1) have "k = e" by linarith
    with True show ?thesis by simp
  next
    case False
    with assms(1) have "pow2 e < pow2 k" by linarith
    then have "e < k" by (simp only: pow2_less_iff)
    with Suc.prems(2) have "exponent_search n (k - 1) x = e"
      by (intro Suc.IH) linarith+
    with False show ?thesis by simp
  qed
qed

lemma exponent64_eval:
  assumes "pow2 k \<le> \<bar>x\<bar>" and "\<bar>x\<bar> < pow2 (k + 1)" and "- 1022 \<le> k" and "k \<le> 1023"
  shows "exponent64 x = k"
  unfolding exponent64_def
  using assms by (intro exponent_search_eval) simp_all

lemma round64_eval:
  assumes "pow2 k \<le> \<bar>x\<bar>" and "\<bar>x\<bar> < pow2 (k + 1)" and "- 1022 \<le> k" and "k \<le> 1023"
  shows "round64 x =
     (let ulp = pow2 (k - 52);
          y = of_int (round_half_even (x / ulp)) * ulp
      in if pow2 1024 \<le> \<bar>y\<bar> then (if 0 < x then PosInf else NegInf) else Fin y)"
proof -
  have "x \<noteq> 0" using assms(1) pow2_pos [of k] by auto
  then show ?thesis
    by (simp only: round64_def exponent64_eval [OF assms] if_False)
qed


lemma round64_zero: "round64 0 = Fin 0"
  by (simp add: round64_def)

lemmas round64_evals = round64_zero
  round64_eval [where k = "- 7"] round64_eval [where k = "- 6"] round64_eval [where k = "- 5"] round64_eval [where k = "- 4"]
  round64_eval [where k = "- 3"] round64_eval [where k = "- 2"] round64_eval [where k = "- 1"]
  round64_eval [where k = 0] round64_eval [where k = 1] round64_eval [where k = 2]
  round64_eval [where k = 3] round64_eval [where k = 4] round64_eval [where k = 5]
  round64_eval [where k = 6] round64_eval [where k = 7]

lemmas eval64 = round64_evals pow2_def round_half_even_def Let_def round_def



lemma failure_branch64:
  "lt64 q (Fin 3) \<Longrightarrow>
   calculateNextReview_binary64 q p e =
     \<lparr> interval64 = Fin 1,
       easeFactor64 = Math_max64 (round64 1.3) (sub64 e (round64 0.2)) \<rparr>"
  by (simp add: calculateNextReview_binary64_def)

lemma le64_not_lt64: "le64 a b \<Longrightarrow> \<not> lt64 b a"
  by (cases a; cases b) simp_all

lemma success_branch64:
  "\<not> lt64 q (Fin 3) \<Longrightarrow>
   calculateNextReview_binary64 q p e =
     \<lparr> interval64 =
         Math_min64 (if seq64 p (Fin 0) then Fin 1
                     else if seq64 p (Fin 1) then Fin 3
                     else Math_round64 (mul64 p e)) (Fin 60),
       easeFactor64 =
         Math_max64 (round64 1.3)
           (add64 e (sub64 (round64 0.1)
              (mul64 (sub64 (Fin 5) q)
                 (add64 (round64 0.08) (mul64 (sub64 (Fin 5) q) (round64 0.02)))))) \<rparr>"
  by (simp add: calculateNextReview_binary64_def Let_def)

lemma floor_fixed64:
  "calculateNextReview_binary64 (Fin 0) p (round64 1.3) =
     \<lparr> interval64 = Fin 1, easeFactor64 = round64 1.3 \<rparr>"
  by (simp add: failure_branch64 eval64)

lemma interval_steps64:
  assumes "le64 (Fin 3) q"
  shows "interval64 (calculateNextReview_binary64 q p e) =
           (if seq64 p (Fin 0) then Fin 1
            else if seq64 p (Fin 1) then Fin 3
            else Math_min64 (Math_round64 (mul64 p e)) (Fin 60))"
  using assms by (simp add: success_branch64 le64_not_lt64)

lemma ease_formula64:
  assumes "le64 (Fin 3) q"
  shows "easeFactor64 (calculateNextReview_binary64 q p e) =
           Math_max64 (round64 1.3)
             (add64 e (sub64 (round64 0.1)
                (mul64 (sub64 (Fin 5) q)
                   (add64 (round64 0.08) (mul64 (sub64 (Fin 5) q) (round64 0.02))))))"
  using assms by (simp add: success_branch64 le64_not_lt64)

lemma delta_quality5:
  "sub64 (round64 0.1)
     (mul64 (sub64 (Fin 5) (Fin 5))
        (add64 (round64 0.08) (mul64 (sub64 (Fin 5) (Fin 5)) (round64 0.02)))) = round64 0.1"
  by (simp add: eval64)

lemma delta_quality4:
  "sub64 (round64 0.1)
     (mul64 (sub64 (Fin 5) (Fin 4))
        (add64 (round64 0.08) (mul64 (sub64 (Fin 5) (Fin 4)) (round64 0.02)))) = Fin 0"
  by (simp add: eval64)

lemma ease_quality5:
  "easeFactor64 (calculateNextReview_binary64 (Fin 5) p e) =
     Math_max64 (round64 1.3) (add64 e (round64 0.1))"
proof -
  have "le64 (Fin 3) (Fin 5)" by simp
  then show ?thesis
    by (simp only: ease_formula64 delta_quality5)
qed

lemma ease_quality4:
  "easeFactor64 (calculateNextReview_binary64 (Fin 4) p e) =
     Math_max64 (round64 1.3) (add64 e (Fin 0))"
proof -
  have "le64 (Fin 3) (Fin 4)" by simp
  then show ?thesis
    by (simp only: ease_formula64 delta_quality4)
qed

lemma ease_quality4_unchanged:
  "round64 x = Fin x \<and> le64 (round64 1.3) (Fin x) \<longrightarrow>
     easeFactor64 (calculateNextReview_binary64 (Fin 4) p (Fin x)) = Fin x"
proof
  assume a: "round64 x = Fin x \<and> le64 (round64 1.3) (Fin x)"
  have c: "round64 1.3 = Fin (5854679515581645 / 4503599627370496)"
    by (simp add: eval64)
  with a have "5854679515581645 / 4503599627370496 \<le> x" by simp
  with a c show "easeFactor64 (calculateNextReview_binary64 (Fin 4) p (Fin x)) = Fin x"
    by (simp add: ease_quality4)
qed

lemma scenario_5_1: "interval64 (calculateNextReview_binary64 (Fin 5) (Fin 1) (round64 2.6)) = Fin 3"
  by (simp add: interval_steps64 eval64)

lemma scenario_5_0: "calculateNextReview_binary64 (Fin 5) (Fin 0) (round64 2.5) =
   \<lparr> interval64 = Fin 1, easeFactor64 = round64 2.6 \<rparr>"
  by (simp add: success_branch64 eval64)

lemma scenario_4_3: "calculateNextReview_binary64 (Fin 4) (Fin 3) (round64 2.5) =
   \<lparr> interval64 = Fin 8, easeFactor64 = round64 2.5 \<rparr>"
  by (simp add: success_branch64 eval64)

text \<open>
  In binary64 too the ease factor has its floor for finite quality and ease factor, and
  the interval its cap for finite previous interval and ease factor: rounding and
  overflow produce no \<open>NaN\<close> on these arguments.
\<close>

lemma round64_not_NaN: "round64 x \<noteq> NaN64"
  by (simp add: round64_def Let_def)

lemma Math_max64_floor: "X \<noteq> NaN64 \<Longrightarrow> le64 (Fin c) (Math_max64 (Fin c) X)"
  by (cases X) simp_all

lemma add64_Fin_not_NaN: "Y \<noteq> NaN64 \<Longrightarrow> add64 (Fin b) Y \<noteq> NaN64"
  by (cases Y) (simp_all add: round64_not_NaN)

lemma sub64_Fin_not_NaN: "Y \<noteq> NaN64 \<Longrightarrow> sub64 (Fin b) Y \<noteq> NaN64"
  by (cases Y) (simp_all add: round64_not_NaN)

lemma delta_not_NaN:
  assumes c: "0 < c" and d: "round64 d = Fin d"
  shows "mul64 (sub64 (Fin 5) (Fin a)) (add64 (Fin d) (mul64 (sub64 (Fin 5) (Fin a)) (Fin c)))
         \<noteq> NaN64"
proof (cases "round64 (5 - a)")
  case NaN64
  then show ?thesis by (simp add: round64_not_NaN)
next
  case NegInf
  with c show ?thesis by simp
next
  case (Fin v)
  show ?thesis
  proof (cases "v = 0")
    case True
    with Fin d show ?thesis by (simp add: round64_not_NaN round64_zero)
  next
    case False
    with Fin show ?thesis
      by (cases "add64 (Fin d) (round64 (v * c))") (simp_all add: round64_not_NaN add64_Fin_not_NaN)
  qed
next
  case PosInf
  with c show ?thesis by simp
qed

lemma ease_floor_binary64:
  "le64 (round64 1.3) (easeFactor64 (calculateNextReview_binary64 (Fin a) p (Fin b)))"
proof -
  have l13: "round64 1.3 = Fin (5854679515581645 / 4503599627370496)"
    and l002: "round64 0.02 = Fin (5764607523034235 / 288230376151711744)"
    and l008: "round64 0.08 = Fin (5764607523034235 / 72057594037927936)"
    and l01: "round64 0.1 = Fin (3602879701896397 / 36028797018963968)"
    and l02: "round64 0.2 = Fin (3602879701896397 / 18014398509481984)"
    and idem: "round64 (5764607523034235 / 72057594037927936) =
               Fin (5764607523034235 / 72057594037927936)"
    by (simp_all add: eval64)
  show ?thesis
  proof (cases "lt64 (Fin a) (Fin 3)")
    case True
    show ?thesis
      by (simp only: failure_branch64 [OF True] SpacedRepetitionResult64.simps l13 l02
            sub64.simps Math_max64_floor [OF round64_not_NaN])
  next
    case False
    have "mul64 (sub64 (Fin 5) (Fin a))
            (add64 (Fin (5764607523034235 / 72057594037927936))
               (mul64 (sub64 (Fin 5) (Fin a)) (Fin (5764607523034235 / 288230376151711744))))
          \<noteq> NaN64"
      by (rule delta_not_NaN [OF _ idem]) simp
    then have "add64 (Fin b) (sub64 (Fin (3602879701896397 / 36028797018963968))
            (mul64 (sub64 (Fin 5) (Fin a))
            (add64 (Fin (5764607523034235 / 72057594037927936))
               (mul64 (sub64 (Fin 5) (Fin a)) (Fin (5764607523034235 / 288230376151711744))))))
          \<noteq> NaN64"
      by (intro add64_Fin_not_NaN sub64_Fin_not_NaN)
    then have "le64 (Fin (5854679515581645 / 4503599627370496))
         (Math_max64 (Fin (5854679515581645 / 4503599627370496))
            (add64 (Fin b) (sub64 (Fin (3602879701896397 / 36028797018963968))
              (mul64 (sub64 (Fin 5) (Fin a))
                (add64 (Fin (5764607523034235 / 72057594037927936))
                  (mul64 (sub64 (Fin 5) (Fin a))
                    (Fin (5764607523034235 / 288230376151711744))))))))"
      by (rule Math_max64_floor)
    then show ?thesis
      by (simp only: success_branch64 [OF False] SpacedRepetitionResult64.simps l13 l002 l008 l01)
  qed
qed

lemma interval_cap_binary64:
  "le64 (interval64 (calculateNextReview_binary64 q (Fin x) (Fin y))) (Fin 60)"
proof (cases "lt64 q (Fin 3)")
  case True
  then show ?thesis by (simp add: failure_branch64)
next
  case False
  then show ?thesis
    by (cases "round64 (x * y)") (simp_all add: success_branch64 round64_not_NaN)
qed

section \<open>Priority of a paper that was never reviewed\<close>

text \<open>
  Claim C1. When \<open>lastReviewed\<close> is absent (no statistics at all, or statistics without
  a review date), \<open>calculatePriority\<close> returns 50, plus 20 if \<open>masteryScore\<close> is defined
  and below 50, plus 25 if a due date is stored and has passed: the due-date test does
  not look at \<open>lastReviewed\<close>. With no due date stored the score is exactly 50 plus the
  mastery bonus.
\<close>

theorem calculatePriority_never_reviewed:
  assumes "Option.bind stats lastReviewed = None"
  shows "calculatePriority now paper stats =
           Num (50 + (if lowMastery stats then 20 else 0) + (if isDue now stats then 25 else 0))
         \<and> (Option.bind stats dueDate = None \<longrightarrow>
              calculatePriority now paper stats = Num (50 + (if lowMastery stats then 20 else 0)))"
  using assms by (simp add: calculatePriority_def isDue_def)

theorem calculatePriority_never_reviewed_witness:
  "calculatePriority 1700000000000 examplePaper
     (Some (exampleStats None 40 (Some (Num 1600000000000)))) = Num 95
   \<and> calculatePriority 1700000000000 examplePaper (Some (exampleStats None 40 None)) = Num 70
   \<and> calculatePriority 1700000000000 examplePaper None = Num 50"
  using calculatePriority_never_reviewed
          [where stats = "Some (exampleStats None 40 (Some (Num 1600000000000)))"
             and now = 1700000000000 and paper = examplePaper]
        calculatePriority_never_reviewed
          [where stats = "Some (exampleStats None 40 None)"
             and now = 1700000000000 and paper = examplePaper]
        calculatePriority_never_reviewed
          [where stats = None and now = 1700000000000 and paper = examplePaper]
  by (simp add: exampleStats_def lowMastery_def isDue_def)

text \<open>
  A record without a review date, with mastery 80 and a due date in the past, scores
  75 and not 50.
\<close>

theorem calculatePriority_never_reviewed_counterexample:
  "lastReviewed (exampleStats None 80 (Some (Num 1600000000000))) = None
   \<and> \<not> lowMastery (Some (exampleStats None 80 (Some (Num 1600000000000))))
   \<and> calculatePriority 1700000000000 examplePaper
        (Some (exampleStats None 80 (Some (Num 1600000000000)))) = Num 75"
  by (simp add: calculatePriority_def exampleStats_def lowMastery_def isDue_def)

section \<open>Inputs outside the documented ranges\<close>

text \<open>
  Claim C2. \<open>calculateNextReview\<close> validates nothing and returns a result for every
  input. A negative quality takes the failure branch like any quality below 3; a quality
  above 5 takes the success branch and enters the ease formula as it is; a negative
  previous interval is multiplied, rounded and capped like any other (the result is then
  negative or zero); a \<open>NaN\<close> ease factor comes back as the returned ease factor.
\<close>

theorem calculateNextReview_no_validation:
  "(js_lt q (Num 0) \<longrightarrow>
      calculateNextReview q p e =
        \<lparr> interval = Num 1, easeFactor = Math_max (Num 1.3) (js_sub e (Num 0.2)) \<rparr>)
   \<and> (js_lt (Num 5) q \<longrightarrow>
      calculateNextReview q p e =
        \<lparr> interval =
            Math_min (if js_seq p (Num 0) then Num 1
                      else if js_seq p (Num 1) then Num 3
                      else Math_round (js_mul p e)) (Num 60),
          easeFactor =
            Math_max (Num 1.3)
              (js_add e (js_sub (Num 0.1)
                 (js_mul (js_sub (Num 5) q)
                    (js_add (Num 0.08) (js_mul (js_sub (Num 5) q) (Num 0.02)))))) \<rparr>)
   \<and> (js_le (Num 3) q \<and> js_lt p (Num 0) \<longrightarrow>
      interval (calculateNextReview q p e) = Math_min (Math_round (js_mul p e)) (Num 60))
   \<and> easeFactor (calculateNextReview q p NaN) = NaN"
proof -
  have a: "js_lt q (Num 0) \<Longrightarrow> js_lt q (Num 3)" by (cases q) simp_all
  have b: "js_lt (Num 5) q \<Longrightarrow> \<not> js_lt q (Num 3)" by (cases q) simp_all
  have c: "js_lt p (Num 0) \<Longrightarrow> \<not> js_seq p (Num 0) \<and> \<not> js_seq p (Num 1)"
    by (cases p) simp_all
  have d: "easeFactor (calculateNextReview q p NaN) = NaN"
    by (cases "js_lt q (Num 3)") (simp_all add: failure_branch success_branch)
  show ?thesis
    using a b c d by (auto simp: failure_branch success_branch js_le_not_lt)
qed

theorem calculateNextReview_no_validation_witness:
  "calculateNextReview (Num (- 2)) (Num 7) (Num 2) = \<lparr> interval = Num 1, easeFactor = Num 1.8 \<rparr>
   \<and> calculateNextReview (Num 6) (Num 2) (Num 2.5) = \<lparr> interval = Num 5, easeFactor = Num 2.66 \<rparr>
   \<and> interval (calculateNextReview (Num 5) (Num (- 4)) (Num 2.5)) = Num (- 10)"
  using calculateNextReview_no_validation [of "Num (- 2)" "Num 7" "Num 2"]
        calculateNextReview_no_validation [of "Num 6" "Num 2" "Num 2.5"]
        calculateNextReview_no_validation [of "Num 5" "Num (- 4)" "Num 2.5"]
  by (simp add: round_def)

text \<open>Quality \<open>-1\<close> is answered with a schedule, not with an error.\<close>

theorem calculateNextReview_no_validation_counterexample:
  "calculateNextReview (Num (- 1)) (Num 0) (Num 2.5) =
     \<lparr> interval = Num 1, easeFactor = Num 2.3 \<rparr>"
  by (simp add: calculateNextReview_def)

section \<open>Sign of the priority\<close>

lemma priority_nonneg:
  assumes "case Option.bind stats lastReviewed of None \<Rightarrow> True | Some lr \<Rightarrow> js_le lr (Num now)"
  shows "js_le (Num 0) (calculatePriority now paper stats)"
proof (cases "Option.bind stats lastReviewed")
  case None
  then show ?thesis by (simp add: priority_steps)
next
  case (Some lr)
  with assms obtain t where lr: "lr = Num t" and "t \<le> now"
    by (cases lr) simp_all
  then obtain r where "Math_min (js_mul (daysSince now (Num t)) (Num 2)) (Num 30) = Num r"
      and "0 \<le> r"
    using time_term_nonneg by blast
  with Some lr show ?thesis by (simp add: priority_steps)
qed

lemma priority_future_review:
  assumes "lastReviewed s = Some (Num t)" and "now < t"
  shows "calculatePriority now paper (Some s) =
           Num (2 * of_int \<lfloor>(now - t) / 86400000\<rfloor>
                + (if lowMastery (Some s) then 20 else 0)
                + (if isDue now (Some s) then 25 else 0))
         \<and> \<lfloor>(now - t) / 86400000\<rfloor> \<le> - 1"
  using assms time_term_future [of now t] by (simp add: priority_steps)

text \<open>
  Claim C3. \<open>calculatePriority\<close> returns a non-negative score whenever \<open>lastReviewed\<close>
  is absent or is a date not later than now. For a review date in the future the time
  term is twice the (negative) number of days, at most \<open>-2\<close>, with no lower bound, so
  the score is negative as soon as this outweighs the two bonuses.
\<close>

theorem calculatePriority_nonneg:
  "((case Option.bind stats lastReviewed of None \<Rightarrow> True | Some lr \<Rightarrow> js_le lr (Num now)) \<longrightarrow>
      js_le (Num 0) (calculatePriority now paper stats))
   \<and> (lastReviewed s = Some (Num t) \<and> now < t \<longrightarrow>
        calculatePriority now paper (Some s) =
          Num (2 * of_int \<lfloor>(now - t) / 86400000\<rfloor>
               + (if lowMastery (Some s) then 20 else 0)
               + (if isDue now (Some s) then 25 else 0))
        \<and> \<lfloor>(now - t) / 86400000\<rfloor> \<le> - 1)"
  using priority_nonneg [where stats = stats and now = now and paper = paper]
        priority_future_review [where s = s and t = t and now = now and paper = paper]
  by blast

theorem calculatePriority_nonneg_witness:
  "js_le (Num 0) (calculatePriority 1700000000000 examplePaper
     (Some (exampleStats (Some (Num (1700000000000 - 3 * 86400000))) 80 None)))
   \<and> calculatePriority 1700000000000 examplePaper
       (Some (exampleStats (Some (Num (1700000000000 + 86400000))) 80 None)) = Num (- 2)"
  using calculatePriority_nonneg
          [where stats = "Some (exampleStats (Some (Num (1700000000000 - 3 * 86400000))) 80 None)"
             and now = 1700000000000 and paper = examplePaper
             and s = "exampleStats (Some (Num (1700000000000 + 86400000))) 80 None"
             and t = "1700000000000 + 86400000"]
  by (simp add: exampleStats_def lowMastery_def isDue_def)

text \<open>
  Reviewed ten days after now, mastery 80, no due date: the score is \<open>-20\<close>.
\<close>

theorem calculatePriority_nonneg_counterexample:
  "calculatePriority 1700000000000 examplePaper
     (Some (exampleStats (Some (Num (1700000000000 + 10 * 86400000))) 80 None)) = Num (- 20)
   \<and> \<not> js_le (Num 0) (Num (- 20))"
  by (simp add: calculatePriority_def exampleStats_def lowMastery_def isDue_def daysSince_def)

section \<open>The failure branch\<close>

text \<open>
  Claim C4. For every quality below 3, whatever the previous interval and the ease
  factor, \<open>calculateNextReview\<close> returns interval 1 and ease factor
  \<open>Math.max(1.3, easeFactor - 0.2)\<close>, the difference being the binary64 one. With
  ease factor 1.3 and quality 0 the ease factor stays 1.3.
\<close>

theorem calculateNextReview_failure:
  assumes "lt64 q (Fin 3)"
  shows "calculateNextReview_binary64 q p e =
           \<lparr> interval64 = Fin 1,
             easeFactor64 = Math_max64 (round64 1.3) (sub64 e (round64 0.2)) \<rparr>
         \<and> calculateNextReview_binary64 (Fin 0) p (round64 1.3) =
             \<lparr> interval64 = Fin 1, easeFactor64 = round64 1.3 \<rparr>"
  using failure_branch64 [OF assms] floor_fixed64 by blast

text \<open>
  From 2.0 the ease factor goes to 1.8, from 2.3 to 2.0999999999999996 (the binary64
  difference, one unit below 2.1), and from 1.4 to the floor.
\<close>

theorem calculateNextReview_failure_witness:
  "calculateNextReview_binary64 (Fin 0) (Fin 10) (Fin 2) =
     \<lparr> interval64 = Fin 1, easeFactor64 = round64 1.8 \<rparr>
   \<and> calculateNextReview_binary64 (Fin 0) (Fin 3) (round64 2.3) =
     \<lparr> interval64 = Fin 1, easeFactor64 = Fin (1182194902184755 / 562949953421312) \<rparr>
   \<and> calculateNextReview_binary64 (Fin 2) (Fin 10) (Fin 1.4) =
     \<lparr> interval64 = Fin 1, easeFactor64 = round64 1.3 \<rparr>"
  using calculateNextReview_failure [where q = "Fin 0" and p = "Fin 10" and e = "Fin 2"]
        calculateNextReview_failure [where q = "Fin 0" and p = "Fin 3" and e = "round64 2.3"]
        calculateNextReview_failure [where q = "Fin 2" and p = "Fin 10" and e = "Fin 1.4"]
  by (simp add: eval64)

section \<open>The success branch\<close>

text \<open>
  Claim C5. For every quality of at least 3 the returned interval is 1 when the previous
  interval is 0, 3 when it is 1, and otherwise \<open>Math.round(previousInterval * easeFactor)\<close>
  capped at 60, the product being the binary64 one. \<open>calculateNextReview(5, 1, 2.6)\<close>
  has interval 3.
\<close>

theorem calculateNextReview_interval:
  assumes "le64 (Fin 3) q"
  shows "interval64 (calculateNextReview_binary64 q p e) =
           (if seq64 p (Fin 0) then Fin 1
            else if seq64 p (Fin 1) then Fin 3
            else Math_min64 (Math_round64 (mul64 p e)) (Fin 60))
         \<and> interval64 (calculateNextReview_binary64 q (Fin 0) e) = Fin 1
         \<and> interval64 (calculateNextReview_binary64 q (Fin 1) e) = Fin 3
         \<and> interval64 (calculateNextReview_binary64 (Fin 5) (Fin 1) (round64 2.6)) = Fin 3"
proof -
  have "interval64 (calculateNextReview_binary64 q (Fin 0) e) = Fin 1"
    and "interval64 (calculateNextReview_binary64 q (Fin 1) e) = Fin 3"
    using assms by (simp_all add: interval_steps64)
  with interval_steps64 [OF assms] scenario_5_1 show ?thesis by blast
qed

text \<open>
  The rounding of the product decides the day: 15 times the binary64 value of 2.3 is
  just below 34.5 and rounds to 34.5, so the interval is 35; 25 times that value rounds
  to 57.49999999999999, so the interval is 57.
\<close>

theorem calculateNextReview_interval_witness:
  "interval64 (calculateNextReview_binary64 (Fin 3) (Fin 0) (round64 2.5)) = Fin 1
   \<and> interval64 (calculateNextReview_binary64 (Fin 3) (Fin 1) (round64 2.5)) = Fin 3
   \<and> interval64 (calculateNextReview_binary64 (Fin 3) (Fin 6) (round64 2.5)) = Fin 15
   \<and> interval64 (calculateNextReview_binary64 (Fin 3) (Fin 30) (round64 2.5)) = Fin 60
   \<and> interval64 (calculateNextReview_binary64 (Fin 5) (Fin 15) (round64 2.3)) = Fin 35
   \<and> interval64 (calculateNextReview_binary64 (Fin 4) (Fin 25) (round64 2.3)) = Fin 57"
  using calculateNextReview_interval [where q = "Fin 3" and p = "Fin 6" and e = "round64 2.5"]
        calculateNextReview_interval [where q = "Fin 3" and p = "Fin 30" and e = "round64 2.5"]
        calculateNextReview_interval [where q = "Fin 5" and p = "Fin 15" and e = "round64 2.3"]
        calculateNextReview_interval [where q = "Fin 4" and p = "Fin 25" and e = "round64 2.3"]
  by (simp add: eval64)

text \<open>
  Claim C6. For every quality of at least 3 the returned ease factor is
  \<open>Math.max(1.3, easeFactor + (0.1 - (5 - quality) * (0.08 + (5 - quality) * 0.02)))\<close>
  in binary64. At quality 5 the term added is exactly the binary64 value of 0.1, and
  \<open>calculateNextReview(5, 0, 2.5)\<close> is interval 1 with ease factor 2.6. At quality 4 the
  term added is exactly 0 (the sum of 0.08 and 0.02 rounds to the value of 0.1), an ease
  factor at or above the floor comes back unchanged, and \<open>calculateNextReview(4, 3, 2.5)\<close>
  is interval 8 with ease factor 2.5.
\<close>

theorem calculateNextReview_ease:
  assumes "le64 (Fin 3) q"
  shows "easeFactor64 (calculateNextReview_binary64 q p e) =
           Math_max64 (round64 1.3)
             (add64 e (sub64 (round64 0.1)
                (mul64 (sub64 (Fin 5) q)
                   (add64 (round64 0.08) (mul64 (sub64 (Fin 5) q) (round64 0.02))))))
         \<and> sub64 (round64 0.1)
              (mul64 (sub64 (Fin 5) (Fin 5))
                 (add64 (round64 0.08) (mul64 (sub64 (Fin 5) (Fin 5)) (round64 0.02)))) =
             round64 0.1
         \<and> easeFactor64 (calculateNextReview_binary64 (Fin 5) p e) =
             Math_max64 (round64 1.3) (add64 e (round64 0.1))
         \<and> calculateNextReview_binary64 (Fin 5) (Fin 0) (round64 2.5) =
             \<lparr> interval64 = Fin 1, easeFactor64 = round64 2.6 \<rparr>
         \<and> sub64 (round64 0.1)
              (mul64 (sub64 (Fin 5) (Fin 4))
                 (add64 (round64 0.08) (mul64 (sub64 (Fin 5) (Fin 4)) (round64 0.02)))) =
             Fin 0
         \<and> (round64 x = Fin x \<and> le64 (round64 1.3) (Fin x) \<longrightarrow>
              easeFactor64 (calculateNextReview_binary64 (Fin 4) p (Fin x)) = Fin x)
         \<and> calculateNextReview_binary64 (Fin 4) (Fin 3) (round64 2.5) =
             \<lparr> interval64 = Fin 8, easeFactor64 = round64 2.5 \<rparr>"
  using ease_formula64 [OF assms] delta_quality5 delta_quality4 ease_quality5
        ease_quality4_unchanged scenario_5_0 scenario_4_3
  by blast

text \<open>
  Quality 3 takes 2.5 to 2.36; quality 4 leaves 2.5 as it is; quality 5 takes the floor
  1.3 to 1.4000000000000001, the binary64 sum of 1.3 and 0.1.
\<close>

theorem calculateNextReview_ease_witness:
  "easeFactor64 (calculateNextReview_binary64 (Fin 3) (Fin 6) (round64 2.5)) = round64 2.36
   \<and> easeFactor64 (calculateNextReview_binary64 (Fin 4) (Fin 6) (Fin 2.5)) = Fin 2.5
   \<and> easeFactor64 (calculateNextReview_binary64 (Fin 5) (Fin 6) (round64 1.3)) =
       Fin (6305039478318695 / 4503599627370496)"
  using calculateNextReview_ease
          [where q = "Fin 3" and p = "Fin 6" and e = "round64 2.5" and x = "2.5"]
        calculateNextReview_ease
          [where q = "Fin 5" and p = "Fin 6" and e = "round64 1.3" and x = "2.5"]
  by (simp add: eval64)

section \<open>Floor of the ease factor and cap of the interval\<close>

text \<open>
  Claim C7. For every finite quality and finite ease factor, and every previous interval,
  the ease factor returned by \<open>calculateNextReview\<close> is at least 1.3. A \<open>NaN\<close> ease factor
  or a \<open>NaN\<close> quality passes through \<open>Math.max\<close> and the returned ease factor is
  \<open>NaN\<close>, which is not at least 1.3.
\<close>

theorem calculateNextReview_ease_floor:
  "js_le (Num 1.3) (easeFactor (calculateNextReview (Num a) p (Num b)))
   \<and> easeFactor (calculateNextReview q p NaN) = NaN
   \<and> easeFactor (calculateNextReview NaN p e) = NaN"
proof -
  have 1: "js_le (Num 1.3) (easeFactor (calculateNextReview (Num a) p (Num b)))"
    by (simp add: calculateNextReview_def Let_def)
  have 2: "easeFactor (calculateNextReview q p NaN) = NaN"
    by (cases "js_lt q (Num 3)") (simp_all add: failure_branch success_branch)
  have 3: "easeFactor (calculateNextReview NaN p e) = NaN"
    by (cases e) (simp_all add: success_branch)
  from 1 2 3 show ?thesis by simp
qed

theorem calculateNextReview_ease_floor_witness:
  "js_le (Num 1.3) (easeFactor (calculateNextReview (Num 3) (Num 6) (Num 1.35)))
   \<and> easeFactor (calculateNextReview (Num 3) (Num 6) (Num 1.35)) = Num 1.3"
  using calculateNextReview_ease_floor [of 3 "Num 6" "1.35"]
  by (simp add: calculateNextReview_def)

text \<open>Quality 0 with a \<open>NaN\<close> ease factor: the returned ease factor is \<open>NaN\<close>.\<close>

theorem calculateNextReview_ease_floor_counterexample:
  "easeFactor (calculateNextReview (Num 0) (Num 0) NaN) = NaN \<and> \<not> js_le (Num 1.3) NaN"
  by (simp add: calculateNextReview_def)

text \<open>
  Claim C8. For every finite previous interval and finite ease factor, and every quality,
  the interval returned by \<open>calculateNextReview\<close> is at most 60; on the failure branch
  it is at most 60 for all arguments. On the success branch a \<open>NaN\<close> previous interval,
  or a \<open>NaN\<close> ease factor with a previous interval other than 0 and 1, passes through
  \<open>Math.min\<close> and the returned interval is \<open>NaN\<close>, which is not at most 60.
\<close>

theorem calculateNextReview_interval_cap:
  "js_le (interval (calculateNextReview q (Num x) (Num y))) (Num 60)
   \<and> (js_lt q (Num 3) \<longrightarrow> js_le (interval (calculateNextReview q p e)) (Num 60))
   \<and> (\<not> js_lt q (Num 3) \<longrightarrow> interval (calculateNextReview q NaN e) = NaN)
   \<and> (\<not> js_lt q (Num 3) \<and> x \<noteq> 0 \<and> x \<noteq> 1 \<longrightarrow>
        interval (calculateNextReview q (Num x) NaN) = NaN)"
  by (cases "js_lt q (Num 3)") (simp_all add: failure_branch success_branch)

theorem calculateNextReview_interval_cap_witness:
  "js_le (interval (calculateNextReview (Num 5) (Num 40) (Num 2.5))) (Num 60)
   \<and> interval (calculateNextReview (Num 5) (Num 40) (Num 2.5)) = Num 60
   \<and> js_le (interval (calculateNextReview (Num 1) NaN NaN)) (Num 60)
   \<and> interval (calculateNextReview (Num 4) NaN (Num 2.5)) = NaN
   \<and> interval (calculateNextReview (Num 4) (Num 7) NaN) = NaN"
  using calculateNextReview_interval_cap [of "Num 5" 40 "2.5" NaN NaN]
        calculateNextReview_interval_cap [of "Num 1" 7 "2.5" NaN NaN]
        calculateNextReview_interval_cap [of "Num 4" 7 "2.5" NaN "Num 2.5"]
  by (simp add: calculateNextReview_def round_def)

text \<open>Quality 5, previous interval 2 and a \<open>NaN\<close> ease factor: the interval is \<open>NaN\<close>.\<close>

theorem calculateNextReview_interval_cap_counterexample:
  "interval (calculateNextReview (Num 5) (Num 2) NaN) = NaN \<and> \<not> js_le NaN (Num 60)"
  by (simp add: calculateNextReview_def)

section \<open>Cap of the time term\<close>

text \<open>
  Claim C9. When \<open>lastReviewed\<close> is set and at least 15 days have passed since, the time
  term \<open>Math.min(daysSince * 2, 30)\<close> of \<open>calculatePriority\<close> is exactly 30, and the score
  is 30 plus the two bonuses. A paper reviewed 20 days ago, with mastery 40 and a due
  date one day in the past, scores 30 + 20 + 25 = 75.
\<close>

theorem calculatePriority_time_cap:
  "(lastReviewed s = Some lr \<and> js_le (Num 15) (daysSince now lr) \<longrightarrow>
      Math_min (js_mul (daysSince now lr) (Num 2)) (Num 30) = Num 30
      \<and> calculatePriority now paper (Some s) =
          Num (30 + (if lowMastery (Some s) then 20 else 0)
                  + (if isDue now (Some s) then 25 else 0)))
   \<and> calculatePriority now paper
       (Some (exampleStats (Some (Num (now - 20 * 86400000))) 40
                (Some (Num (now - 86400000))))) = Num 75"
proof -
  have cap: "Math_min (js_mul (daysSince now lr) (Num 2)) (Num 30) = Num 30"
    if "js_le (Num 15) (daysSince now lr)"
  proof -
    from that obtain d where "daysSince now lr = Num d" and "15 \<le> d"
      by (cases "daysSince now lr") simp_all
    then show ?thesis by simp
  qed
  have example: "calculatePriority now paper
       (Some (exampleStats (Some (Num (now - 20 * 86400000))) 40
                (Some (Num (now - 86400000))))) = Num 75"
    by (simp add: priority_steps exampleStats_def lowMastery_def isDue_def daysSince_def)
  from cap example show ?thesis by (simp add: priority_steps)
qed

theorem calculatePriority_time_cap_witness:
  "js_le (Num 15) (daysSince 1700000000000 (Num (1700000000000 - 15 * 86400000)))
   \<and> calculatePriority 1700000000000 examplePaper
       (Some (exampleStats (Some (Num (1700000000000 - 15 * 86400000))) 60 None)) = Num 30"
  using calculatePriority_time_cap
     [where s = "exampleStats (Some (Num (1700000000000 - 15 * 86400000))) 60 None"
        and lr = "Num (1700000000000 - 15 * 86400000)"
        and now = 1700000000000 and paper = examplePaper]
  by (simp add: exampleStats_def lowMastery_def isDue_def daysSince_def)

section \<open>Rating keys\<close>

text \<open>
  The four keys of the map, and the default for a key that neither the map nor
  \<open>Object.prototype\<close> has.
\<close>

lemma getRatingQuality_known_keys:
  "getRatingQuality ''forgot'' = Number (Num 0)"
  "getRatingQuality ''struggled'' = Number (Num 2)"
  "getRatingQuality ''good'' = Number (Num 4)"
  "getRatingQuality ''perfect'' = Number (Num 5)"
  by (simp_all add: getRatingQuality_def js_get_def qualityMap_def nullish_def)

lemma getRatingQuality_other_key:
  assumes "k \<notin> set (map fst qualityMap)" and "k \<notin> set objectPrototype"
  shows "getRatingQuality k = Number (Num 2)"
proof -
  from assms(1) have "map_of qualityMap k = None"
    by (simp add: map_of_eq_None_iff)
  with assms(2) show ?thesis
    by (simp add: getRatingQuality_def js_get_def nullish_def)
qed

text \<open>
  Claim C10 has \<open>getRatingQuality\<close> return the default 2 for every key outside the
  map. For the key \<open>toString\<close>, which is outside the map, the lookup
  \<open>qualityMap[ratingKey]\<close> finds the function inherited from \<open>Object.prototype\<close>; it is
  not nullish, so \<open>??\<close> keeps it and \<open>getRatingQuality\<close> returns that function, not the
  number 2.
\<close>

theorem getRatingQuality_inherited_key:
  "''toString'' \<notin> set (map fst qualityMap)
   \<and> getRatingQuality ''toString'' = Builtin ''toString''
   \<and> getRatingQuality ''toString'' \<noteq> Number (Num 2)"
  by (simp add: getRatingQuality_def js_get_def qualityMap_def objectPrototype_def nullish_def)

end
